theory Spec2Isabelle
  imports Main "HOL-Library.AList" "HOL-Library.Word"
begin

section \<open>Python values, exceptions and attribute access\<close>

text \<open>
  Attribute values as far as the handler tree needs them. \<open>NOTHING\<close> is the absent-value
  sentinel of \<^verbatim>\<open>torchslime.utils.typing\<close>, \<open>PyNone\<close> is Python's \<^verbatim>\<open>None\<close>, \<open>RefV\<close> is a
  reference to an opaque object (a batch, a tensor, a collaborator).
\<close>

datatype val = NOTHING | PyNone | IntV int | StrV string | RefV nat

text \<open>
  Exceptions. All of them derive from \<^verbatim>\<open>Exception\<close> but \<open>KeyboardInterrupt\<close>, which derives
  from \<^verbatim>\<open>BaseException\<close> only and so passes through an \<^verbatim>\<open>except Exception\<close> clause.
\<close>

datatype py_exn =
    AttributeError | TypeError | ValueError | RuntimeError | IndexError
  | ZeroDivisionError | UnboundLocalError | KeyboardInterrupt


text \<open>
  A target object is its instance dictionary (\<^verbatim>\<open>__dict__\<close>). What the class of the target
  does in \<^verbatim>\<open>__setattr__\<close> before it stores the value is a hook: given the attribute name,
  the value and the current dictionary it either raises or lets the store happen. A class
  that does not override \<^verbatim>\<open>__setattr__\<close> (such as \<^verbatim>\<open>Base\<close>) has the hook \<open>object_setattr\<close>.
\<close>

type_synonym obj = "string \<rightharpoonup> val"



text \<open>\<^verbatim>\<open>getattr(obj, attr, default)\<close> and \<^verbatim>\<open>setattr(obj, attr, value)\<close>.\<close>

definition getattr_default :: "obj \<Rightarrow> string \<Rightarrow> val \<Rightarrow> val" where
  "getattr_default d a dflt = (case d a of None \<Rightarrow> dflt | Some v \<Rightarrow> v)"






section \<open>Scoped attributes (bases.py, ScopedAttrRestore and ScopedAttrAssign)\<close>




















section \<open>Rank gating (core/hooks/launch.py, DistributedLaunch.handler_call)\<close>

text \<open>
  The values \<^verbatim>\<open>exec_ranks\<close> of a handler can take: the ellipsis \<^verbatim>\<open>...\<close> (\<open>PASS\<close>: always),
  \<^verbatim>\<open>None\<close> or \<open>NOTHING\<close> (never), or a collection of ranks.
\<close>

datatype exec_ranks_t = PASS | ExecNone | ExecNothing | Ranks "int list"

record 'c handler =
  get_exec_ranks :: exec_ranks_t
  handle :: "'c \<Rightarrow> py_exn option \<times> 'c"

fun is_none_or_nothing :: "exec_ranks_t \<Rightarrow> bool" where
  "is_none_or_nothing ExecNone = True"
| "is_none_or_nothing ExecNothing = True"
| "is_none_or_nothing PASS = False"
| "is_none_or_nothing (Ranks rs) = False"

text \<open>\<^verbatim>\<open>rank in exec_ranks\<close>: membership in a collection, a type error on anything else.\<close>

fun rank_in :: "int \<Rightarrow> exec_ranks_t \<Rightarrow> py_exn + bool" where
  "rank_in rank (Ranks rs) = Inr (rank \<in> set rs)"
| "rank_in rank PASS = Inl TypeError"
| "rank_in rank ExecNone = Inl TypeError"
| "rank_in rank ExecNothing = Inl TypeError"

text \<open>
  The body of \<^verbatim>\<open>handler_call\<close>, statement by statement. \<^verbatim>\<open>exec_ranks\<close> is assigned in the
  body (line 59), so it is a local variable of the function; the first argument is its
  slot when the body starts. Reading an empty slot raises \<open>UnboundLocalError\<close>. The
  assignment \<^verbatim>\<open>exec_ranks = handler.get_exec_ranks()\<close> comes after both tests that read
  the variable.
\<close>

definition handler_call_body ::
  "exec_ranks_t option \<Rightarrow> int \<Rightarrow> 'c handler \<Rightarrow> 'c \<Rightarrow> py_exn option \<times> 'c" where
  "handler_call_body slot rank handler ctx =
     (case slot of
        None \<Rightarrow> (Some UnboundLocalError, ctx)
      | Some exec_ranks \<Rightarrow>
          if exec_ranks = PASS then handle handler ctx
          else if is_none_or_nothing exec_ranks then (None, ctx)
          else
            (let exec_ranks = get_exec_ranks handler
             in case rank_in rank exec_ranks of
                  Inl e \<Rightarrow> (Some e, ctx)
                | Inr True \<Rightarrow> handle handler ctx
                | Inr False \<Rightarrow> (None, ctx)))"

text \<open>
  \<^verbatim>\<open>DistributedLaunch.handler_call(handler, ctx)\<close>, with \<open>rank\<close> the value of
  \<^verbatim>\<open>ctx.distributed.get_rank()\<close>: the body starts with the slot empty.
\<close>

definition DistributedLaunch_handler_call ::
  "int \<Rightarrow> 'c handler \<Rightarrow> 'c \<Rightarrow> py_exn option \<times> 'c" where
  "DistributedLaunch_handler_call rank handler ctx = handler_call_body None rank handler ctx"

text \<open>\<^verbatim>\<open>VanillaLaunch.handler_call\<close>, the sibling hook.\<close>

definition VanillaLaunch_handler_call :: "'c handler \<Rightarrow> 'c \<Rightarrow> py_exn option \<times> 'c" where
  "VanillaLaunch_handler_call handler ctx = handle handler ctx"

text \<open>A handler body that leaves its name in the context, to see whether it ran.\<close>

definition mark_handle :: "string \<Rightarrow> string list \<Rightarrow> py_exn option \<times> string list" where
  "mark_handle name ctx = (None, ctx @ [name])"

section \<open>Gradient accumulation (handler/common.py, BackwardHandler and OptimizerContainer)\<close>

text \<open>
  What the two handlers read from the context: \<^verbatim>\<open>step_ctx.total\<close>, \<^verbatim>\<open>step_ctx.current\<close>,
  \<^verbatim>\<open>pipeline_ctx.grad_acc\<close>, and whether \<^verbatim>\<open>ctx_check\<close> finds \<^verbatim>\<open>step_ctx.loss\<close> and
  \<^verbatim>\<open>pipeline_ctx.optimizer\<close>. Python's \<^verbatim>\<open>%\<close> on integers is floored like \<open>mod\<close> on \<open>int\<close>,
  and raises on a zero divisor.
\<close>

record grad_ctx =
  step_total :: int
  step_current :: int
  grad_acc :: int
  has_loss :: bool
  has_optimizer :: bool

definition py_mod :: "int \<Rightarrow> int \<Rightarrow> py_exn + int" where
  "py_mod a b = (if b = 0 then Inl ZeroDivisionError else Inr (a mod b))"

text \<open>
  \<^verbatim>\<open>BackwardHandler.handle\<close>: the result is the divisor of
  \<^verbatim>\<open>(loss_reduction(ctx) / grad_acc).backward()\<close>, or \<open>None\<close> when the handler skips because
  there is no loss.
\<close>

definition BackwardHandler_divisor :: "int \<Rightarrow> int \<Rightarrow> int \<Rightarrow> py_exn + int" where
  "BackwardHandler_divisor tot cur A =
     (case py_mod tot A of
        Inl e \<Rightarrow> Inl e
      | Inr last_size \<Rightarrow> Inr (if (tot - cur - 1) \<ge> last_size then A else last_size))"

definition BackwardHandler_handle :: "grad_ctx \<Rightarrow> py_exn + int option" where
  "BackwardHandler_handle c =
     (if has_loss c
      then (case BackwardHandler_divisor (step_total c) (step_current c) (grad_acc c) of
              Inl e \<Rightarrow> Inl e
            | Inr d \<Rightarrow> Inr (Some d))
      else Inr None)"

text \<open>
  \<^verbatim>\<open>OptimizerContainer.handle\<close> after its children have returned: the result says whether
  \<^verbatim>\<open>optimizer.step()\<close> and \<^verbatim>\<open>optimizer.zero_grad()\<close> run. \<^verbatim>\<open>and\<close> and \<^verbatim>\<open>or\<close> evaluate
  from the left and stop early.
\<close>

definition OptimizerContainer_update :: "grad_ctx \<Rightarrow> py_exn + bool" where
  "OptimizerContainer_update c =
     (if \<not> has_optimizer c then Inr False
      else (case py_mod (step_current c + 1) (grad_acc c) of
              Inl e \<Rightarrow> Inl e
            | Inr m \<Rightarrow> Inr (m = 0 \<or> step_current c + 1 = step_total c)))"

text \<open>
  One epoch of \<open>tot\<close> steps with accumulation factor \<open>A\<close>, loss and optimizer present:
  for each step index the divisor that \<^verbatim>\<open>BackwardHandler\<close> uses and whether
  \<^verbatim>\<open>OptimizerContainer\<close> updates after it.
\<close>

definition epoch_ctx :: "int \<Rightarrow> int \<Rightarrow> int \<Rightarrow> grad_ctx" where
  "epoch_ctx tot A i =
     \<lparr>step_total = tot, step_current = i, grad_acc = A, has_loss = True,
      has_optimizer = True\<rparr>"

definition epoch_divisors :: "int \<Rightarrow> int \<Rightarrow> (py_exn + int option) list" where
  "epoch_divisors tot A = map (\<lambda>i. BackwardHandler_handle (epoch_ctx tot A i)) [0..tot - 1]"

definition epoch_updates :: "int \<Rightarrow> int \<Rightarrow> (py_exn + bool) list" where
  "epoch_updates tot A = map (\<lambda>i. OptimizerContainer_update (epoch_ctx tot A i)) [0..tot - 1]"

section \<open>Step iteration (handler/common.py, StepIterationContainer.handle)\<close>






section \<open>Collective object communication (util/__init__.py, TorchComm)\<close>

text \<open>
  A \<^verbatim>\<open>uint8\<close> tensor of one dimension is a list of bytes, a tensor of sizes a list of
  naturals. The pickler and the unpickler are parameters: \<open>dumps\<close> gives the bytes that
  \<^verbatim>\<open>Pickler(f).dump(obj)\<close> writes, \<open>loads\<close> is \<^verbatim>\<open>Unpickler(BytesIO(b)).load()\<close> and may
  raise.
\<close>

type_synonym byte = "8 word"

text \<open>\<^verbatim>\<open>_object_to_tensor\<close>: the byte tensor and its \<^verbatim>\<open>numel()\<close>.\<close>

definition object_to_tensor :: "('o \<Rightarrow> byte list) \<Rightarrow> 'o \<Rightarrow> byte list \<times> nat" where
  "object_to_tensor dumps ob = (let byte_tensor = dumps ob in (byte_tensor, length byte_tensor))"


text \<open>
  \<^verbatim>\<open>Tensor.resize_(n)\<close>: the first elements stay, a longer tensor is filled with whatever the
  memory holds, here \<open>junk\<close> at each new position.
\<close>

definition resize :: "(nat \<Rightarrow> byte) \<Rightarrow> byte list \<Rightarrow> nat \<Rightarrow> byte list" where
  "resize junk tensor n = take n tensor @ map junk [length tensor..<n]"

text \<open>\<^verbatim>\<open>_make_tensor_group_list\<close> for an integer size: \<open>group_size\<close> rows of zeros.\<close>

definition make_tensor_group_list :: "nat \<Rightarrow> nat \<Rightarrow> ('a::zero) list list" where
  "make_tensor_group_list sz group_size = replicate group_size (replicate sz 0)"

text \<open>
  The collectives of \<^verbatim>\<open>torch.distributed\<close>, by their contract. \<open>tensors\<close> holds what the
  ranks pass in, in rank order. \<^verbatim>\<open>all_gather(tensor_list, tensor)\<close> leaves the tensor of
  rank \<open>i\<close> in slot \<open>i\<close> of every rank's list; \<^verbatim>\<open>gather(tensor, gather_list, dst)\<close> does so
  on the rank that passes a list (the destination) and leaves the others with nothing.
  Slots and tensors must agree in number and size.
\<close>

definition dist_all_gather :: "'a list list \<Rightarrow> 'a list list \<Rightarrow> py_exn + 'a list list" where
  "dist_all_gather tensor_list tensors =
     (if map length tensor_list = map length tensors then Inr tensors else Inl RuntimeError)"


text \<open>
  \<^verbatim>\<open>tensor.item()\<close> of a tensor with one element, and \<^verbatim>\<open>max\<close> of a list of such tensors:
  the first one that no later one is greater than (\<open>hd\<close> reads the one element).
\<close>

definition item :: "'a list \<Rightarrow> py_exn + 'a" where
  "item t = (case t of [x] \<Rightarrow> Inr x | _ \<Rightarrow> Inl ValueError)"

fun py_max :: "nat list list \<Rightarrow> py_exn + nat list" where
  "py_max [] = Inl ValueError"
| "py_max (t # ts) = Inr (fold (\<lambda>u m. if hd u > hd m then u else m) ts t)"

text \<open>
  \<^verbatim>\<open>_all_gather_size\<close>: an \<^verbatim>\<open>all_gather\<close> of the one-element size tensors; \<open>local_sizes\<close>
  are the sizes the ranks pass in.
\<close>

definition all_gather_size :: "nat list \<Rightarrow> nat \<Rightarrow> py_exn + nat list list" where
  "all_gather_size local_sizes group_size =
     dist_all_gather (make_tensor_group_list 1 group_size) (map (\<lambda>n. [n]) local_sizes)"

text \<open>
  \<^verbatim>\<open>_transfer_objects\<close>: a list of \<open>group_size\<close> entries, \<open>NOTHING\<close> at first, filled slot
  by slot with the object unpickled from the first \<open>object_size_list[i]\<close> bytes of tensor
  \<open>i\<close>.
\<close>

datatype 'o slot = EmptySlot | Obj 'o



text \<open>
  The part that \<^verbatim>\<open>all_gather_object\<close> and \<^verbatim>\<open>gather_object\<close> share, for a group in which rank
  \<open>r\<close> submits \<open>objs ! r\<close> and has the uninitialised memory \<open>junk r\<close>: every rank pickles its
  object, the sizes are gathered on all ranks, and every rank resizes its tensor to the
  largest size. The result is the size list and the resized tensors of all ranks.
\<close>

definition negotiate ::
  "('o \<Rightarrow> byte list) \<Rightarrow> (nat \<Rightarrow> nat \<Rightarrow> byte) \<Rightarrow> 'o list
     \<Rightarrow> py_exn + (nat list list \<times> nat \<times> byte list list)" where
  "negotiate dumps junk objs =
     (let group_size = length objs;
          local = map (object_to_tensor dumps) objs
      in case all_gather_size (map snd local) group_size of
           Inl e \<Rightarrow> Inl e
         | Inr object_size_list \<Rightarrow>
             (case py_max object_size_list of
                Inl e \<Rightarrow> Inl e
              | Inr m \<Rightarrow>
                  (case item m of
                     Inl e \<Rightarrow> Inl e
                   | Inr max_object_size \<Rightarrow>
                       Inr (object_size_list, max_object_size,
                            map (\<lambda>r. resize (junk r) (fst (local ! r)) max_object_size)
                              [0..<group_size]))))"


text \<open>
  \<^verbatim>\<open>gather_object(obj, dst)\<close> as it returns on rank \<open>rank\<close>. A caller can tell three kinds
  of result apart: \<^verbatim>\<open>None\<close>, the sentinel \<open>NOTHING\<close>, and a list. The bare \<^verbatim>\<open>return\<close> gives
  \<^verbatim>\<open>None\<close>.
\<close>

datatype 'o gathered = ReturnNone | ReturnNothing | ReturnList "'o slot list"


text \<open>
  A pickler for the closed instances: the objects are byte strings, the pickle of a string
  is a header byte and the string, and anything without the header does not unpickle.
\<close>

definition header_dumps :: "byte list \<Rightarrow> byte list" where
  "header_dumps b = 128 # b"


definition junk_ff :: "nat \<Rightarrow> nat \<Rightarrow> byte" where
  "junk_ff r i = 255"

section \<open>Attribute observers (bases.py, AttrObservable)\<close>

text \<open>
  An observer is known by its identity (\<^verbatim>\<open>id(observer)\<close>, which is also what the default
  \<^verbatim>\<open>==\<close> of \<^verbatim>\<open>observer in observers\<close> compares). The state of an observable: its
  attributes, the dictionary \<^verbatim>\<open>__observe\<close> from attribute names to the list of subscribed
  observers, the dictionary \<^verbatim>\<open>__observe_attrs\<close> from observers to the set of names they
  are subscribed to (a list without repetition), and the calls of observer callbacks made
  so far, as (observer, name, new value, old value).
\<close>

record observable =
  attr_values :: obj
  observe :: "string \<rightharpoonup> nat list"
  observe_attrs :: "nat \<rightharpoonup> string list"
  notified :: "(nat \<times> string \<times> val \<times> val) list"


text \<open>\<^verbatim>\<open>notify__\<close>: the callback of the observer for the attribute is called.\<close>

definition notify :: "nat \<Rightarrow> string \<Rightarrow> val \<Rightarrow> val \<Rightarrow> observable \<Rightarrow> observable" where
  "notify observer name new_value old_value s =
     s\<lparr>notified := notified s @ [(observer, name, new_value, old_value)]\<rparr>"

text \<open>\<^verbatim>\<open>set.add\<close> on a set kept as a list.\<close>

definition set_add :: "'a \<Rightarrow> 'a list \<Rightarrow> 'a list" where
  "set_add x xs = (if x \<in> set xs then xs else xs @ [x])"

text \<open>\<^verbatim>\<open>attach_attr__\<close>.\<close>

definition attach_attr :: "nat \<Rightarrow> string \<Rightarrow> bool \<Rightarrow> observable \<Rightarrow> observable" where
  "attach_attr observer name init s =
     (let s1 = (if observe_attrs s observer = None
                then s\<lparr>observe_attrs := (observe_attrs s)(observer \<mapsto> [])\<rparr> else s);
          s2 = (if observe s1 name = None
                then s1\<lparr>observe := (observe s1)(name \<mapsto> [])\<rparr> else s1);
          s3 = s2\<lparr>observe_attrs := (observe_attrs s2)
                  (observer \<mapsto> set_add name (case observe_attrs s2 observer of
                                               None \<Rightarrow> [] | Some names \<Rightarrow> names))\<rparr>;
          s4 = s3\<lparr>observe := (observe s3)
                  (name \<mapsto> (case observe s3 name of
                              None \<Rightarrow> [] | Some observers \<Rightarrow> observers) @ [observer])\<rparr>
      in if init
         then notify observer name (getattr_default (attr_values s4) name NOTHING) NOTHING s4
         else s4)"













section \<open>Properties of the scoped attributes\<close>

subsection \<open>The loops of \<^verbatim>\<open>__enter__\<close> and \<^verbatim>\<open>__exit__\<close>\<close>









subsection \<open>The \<^verbatim>\<open>with\<close> statement\<close>






subsection \<open>Scope restoration\<close>




subsection \<open>Failure of the write-back\<close>



subsection \<open>An attribute that was unset before the scope\<close>



section \<open>Properties of the rank gate\<close>

text \<open>
  Whatever the handler and the rank, \<^verbatim>\<open>handler_call\<close> ends at its first statement: the test
  \<^verbatim>\<open>exec_ranks is ...\<close> reads a local variable that has no value yet.
\<close>

lemma handler_call_always_raises:
  "DistributedLaunch_handler_call rank handler ctx = (Some UnboundLocalError, ctx)"
  by (simp add: DistributedLaunch_handler_call_def handler_call_body_def)

text \<open>
  Had the variable been bound to \<^verbatim>\<open>handler.get_exec_ranks()\<close> before the first test, the
  body would gate as its comments say: run on \<open>PASS\<close>, run on a rank of the collection,
  and do nothing otherwise.
\<close>

lemma handler_call_body_bound:
  "handler_call_body (Some (get_exec_ranks handler)) rank handler ctx =
     (if get_exec_ranks handler = PASS
         \<or> (\<exists>rs. get_exec_ranks handler = Ranks rs \<and> rank \<in> set rs)
      then handle handler ctx else (None, ctx))"
  by (cases "get_exec_ranks handler") (auto simp: handler_call_body_def)

text \<open>
  Claim C2 says that the body of a handler runs exactly when its \<^verbatim>\<open>exec_ranks\<close> is the
  ellipsis or holds the current rank, and that \<^verbatim>\<open>handler_call\<close> decides this without
  raising in each of the three gate states. The code, on rank 0: for the ellipsis, for the
  rank set \<^verbatim>\<open>[0]\<close> and for \<^verbatim>\<open>None\<close> it raises \<open>UnboundLocalError\<close> and the handler does
  not run, where the claim has it run in the first two cases and return quietly in the
  third. \<^verbatim>\<open>VanillaLaunch.handler_call\<close> runs the same handler.
\<close>

theorem handler_call_unbound_local:
  "DistributedLaunch_handler_call 0 \<lparr>get_exec_ranks = PASS, handle = mark_handle ''h''\<rparr> []
     = (Some UnboundLocalError, [])
   \<and> DistributedLaunch_handler_call 0 \<lparr>get_exec_ranks = Ranks [0], handle = mark_handle ''h''\<rparr> []
     = (Some UnboundLocalError, [])
   \<and> DistributedLaunch_handler_call 0 \<lparr>get_exec_ranks = ExecNone, handle = mark_handle ''h''\<rparr> []
     = (Some UnboundLocalError, [])
   \<and> VanillaLaunch_handler_call \<lparr>get_exec_ranks = PASS, handle = mark_handle ''h''\<rparr> []
     = (None, [''h''])"
  by (simp add: DistributedLaunch_handler_call_def handler_call_body_def
        VanillaLaunch_handler_call_def mark_handle_def)

section \<open>Properties of the gradient accumulation\<close>

text \<open>
  Claim C3: with a loss in the context and an accumulation factor \<open>A\<close> other than 0 (the
  remainder \<open>total mod A\<close> needs it), \<^verbatim>\<open>BackwardHandler\<close> divides the loss of step \<open>i\<close> by
  \<open>A\<close> if \<open>total - i - 1 \<ge> last\<close> and by \<open>last\<close> otherwise, where \<open>last = total mod A\<close>.
\<close>

theorem backward_divisor_formula:
  assumes "has_loss c" and "grad_acc c \<noteq> 0"
  shows "BackwardHandler_handle c =
           Inr (Some (if step_total c - step_current c - 1 \<ge> step_total c mod grad_acc c
                      then grad_acc c else step_total c mod grad_acc c))"
  using assms by (simp add: BackwardHandler_handle_def BackwardHandler_divisor_def py_mod_def)

theorem backward_divisor_formula_witness:
  "has_loss (epoch_ctx 10 3 9) \<and> grad_acc (epoch_ctx 10 3 9) \<noteq> 0
   \<and> BackwardHandler_handle (epoch_ctx 10 3 9) = Inr (Some 1)
   \<and> BackwardHandler_handle (epoch_ctx 10 3 8) = Inr (Some 3)"
  using backward_divisor_formula [of "epoch_ctx 10 3 9"]
    backward_divisor_formula [of "epoch_ctx 10 3 8"]
  by (simp add: epoch_ctx_def)

text \<open>
  The steps that get the divisor \<open>last\<close> are the final \<open>last\<close> steps of the epoch: the
  trailing group, scaled by its own size.
\<close>

lemma trailing_group:
  assumes "0 < A"
  shows "BackwardHandler_divisor tot i A = Inr (tot mod A) \<longleftrightarrow> tot - tot mod A \<le> i"
proof -
  define m where "m = tot mod A"
  have m: "m < A" using assms by (simp add: m_def)
  have "BackwardHandler_divisor tot i A = Inr (if tot - i - 1 \<ge> m then A else m)"
    using assms by (simp add: BackwardHandler_divisor_def py_mod_def m_def)
  then have "BackwardHandler_divisor tot i A = Inr m \<longleftrightarrow> tot - m \<le> i"
    using m by auto
  then show ?thesis by (simp add: m_def)
qed

text \<open>
  Claim C4 has the divisor 1 for the steps 7, 8 and 9 of an epoch of 10 steps with
  accumulation factor 3. The code divides by 3 at step 7: \<open>10 - 7 - 1 = 2\<close> is not below
  \<open>last = 1\<close>.
\<close>

theorem accumulation_example_counterexample:
  "BackwardHandler_divisor 10 7 3 \<noteq> Inr 1"
  by (simp add: BackwardHandler_divisor_def py_mod_def)

text \<open>
  Claim C4, amended: for 10 steps and accumulation factor 3 the divisor is 3 for the steps
  0 to 8 and 1 for step 9 (the trailing group has \<open>last = 1\<close> step), and
  \<^verbatim>\<open>OptimizerContainer\<close> updates after the steps 2, 5, 8 and 9 and after no other step.
\<close>

theorem accumulation_example:
  "epoch_divisors 10 3 =
     [Inr (Some 3), Inr (Some 3), Inr (Some 3), Inr (Some 3), Inr (Some 3),
      Inr (Some 3), Inr (Some 3), Inr (Some 3), Inr (Some 3), Inr (Some 1)]
   \<and> epoch_updates 10 3 =
     [Inr False, Inr False, Inr True, Inr False, Inr False,
      Inr True, Inr False, Inr False, Inr True, Inr True]"
  by (simp add: epoch_divisors_def epoch_updates_def epoch_ctx_def BackwardHandler_handle_def
        BackwardHandler_divisor_def OptimizerContainer_update_def py_mod_def upto.simps)

section \<open>Properties of the step iteration\<close>






section \<open>Properties of the collective object communication\<close>












text \<open>
  What the three ranks of the instances below hold after the negotiation: the sizes 4, 1
  and 2, the largest size 4, and the tensors resized to it, the shorter ones padded with
  whatever the memory held.
\<close>

lemma padded_view:
  "negotiate header_dumps junk_ff [[1, 2, 3], [], [7]] =
     Inr ([[4], [1], [2]], 4, [[128, 1, 2, 3], [128, 255, 255, 255], [128, 7, 255, 255]])"
  by (simp add: negotiate_def all_gather_size_def dist_all_gather_def make_tensor_group_list_def
     object_to_tensor_def header_dumps_def item_def resize_def junk_ff_def Let_def upt_rec numeral_eq_Suc)







section \<open>Properties of the attribute observers\<close>



lemma attach_attr_values:
  "attr_values (attach_attr ob n i s) = attr_values s"
  by (simp add: attach_attr_def Let_def notify_def)
























end
